theory Spec2Isabelle
  imports Main
begin

section \<open>Events, attributes and component state\<close>

text \<open>
  A DOM node is identified by a number. A ref (\<^verbatim>\<open>React.RefObject\<close>) is read through its
  \<^verbatim>\<open>current\<close> field, which is \<^verbatim>\<open>null\<close> (\<open>None\<close>) or a node.
\<close>

type_synonym element = nat

text \<open>
  The values of the plain (non-function) props of a host element. A prop whose value is
  \<^verbatim>\<open>undefined\<close> is in the props object but is not rendered as an attribute.
\<close>

datatype jsval = Undefined | BoolV bool | StrV string

type_synonym props_obj = "string \<rightharpoonup> jsval"

text \<open>The fields of the event objects that the component reads or writes.\<close>

record event =
  defaultPrevented :: bool

record mouse_event = event +
  button :: int
  ctrlKey :: bool
  shiftKey :: bool
  altKey :: bool
  metaKey :: bool

record keyboard_event = event +
  key :: string

record pointer_down_outside_event = event +
  target :: "element option"

text \<open>
  The mutable state behind one mounted dropdown menu: the state cell of the root's
  controlled-state hook, the \<^verbatim>\<open>skipCloseAutoFocus\<close> cell of the surface
  (\<^verbatim>\<open>React.useState(false)\<close>), the element that holds keyboard focus, and the state of
  the calling application, which only the caller's own callbacks change.
\<close>

record 'c state =
  uncontrolledProp :: "bool option"
  skipCloseAutoFocus :: bool
  activeElement :: "element option"
  caller :: 'c

text \<open>
  A callback supplied by the caller receives the event and acts on the caller's state; the
  boolean it returns says whether it called \<^verbatim>\<open>event.preventDefault()\<close>. A handler that the
  component puts on a rendered element acts on the whole state.
\<close>

type_synonym ('e, 'c) caller_handler = "'e \<Rightarrow> 'c \<Rightarrow> bool \<times> 'c"

type_synonym ('e, 'c) handler = "'e \<Rightarrow> 'c state \<Rightarrow> 'e \<times> 'c state"

definition preventDefault :: "'a event_scheme \<Rightarrow> 'a event_scheme" where
  "preventDefault e = e\<lparr>defaultPrevented := True\<rparr>"

text \<open>The optional call \<^verbatim>\<open>handler?.(event)\<close>.\<close>

definition call_handler ::
  "('a event_scheme, 'c) caller_handler option \<Rightarrow> ('a event_scheme, 'c) handler" where
  "call_handler h e s =
     (case h of
        None \<Rightarrow> (e, s)
      | Some f \<Rightarrow>
          (case f e (caller s) of
             (prevented, c') \<Rightarrow> (if prevented then preventDefault e else e, s\<lparr>caller := c'\<rparr>)))"

text \<open>
  Modelled from the spec: \<^verbatim>\<open>composeEventHandlers\<close> of the shared utilities, which is not
  among the sources. "User-supplied handlers for the same events are always invoked first,
  in composition, before this internal logic -- composed handlers never short-circuit each
  other except via explicit default-prevention."
\<close>

definition composeEventHandlers ::
  "('a event_scheme, 'c) caller_handler option \<Rightarrow> ('a event_scheme, 'c) handler
     \<Rightarrow> ('a event_scheme, 'c) handler" where
  "composeEventHandlers originalEventHandler ourEventHandler event s =
     (case call_handler originalEventHandler event s of
        (event', s') \<Rightarrow>
          if defaultPrevented event' then (event', s') else ourEventHandler event' s')"

section \<open>DropdownMenu: the root controller\<close>

record 'c DropdownMenuOwnProps =
  idProp :: "string option"
  isOpenProp :: "bool option"
  defaultIsOpen :: "bool option"
  onIsOpenChange :: "(bool \<Rightarrow> 'c \<Rightarrow> 'c) option"

text \<open>
  The argument of a state setter (\<^verbatim>\<open>React.SetStateAction\<close>): a value, or a function of the
  previous value. Every write of this component is a boolean.
\<close>

datatype SetStateAction = Value bool | Updater "bool option \<Rightarrow> bool"

fun resolve :: "SetStateAction \<Rightarrow> bool option \<Rightarrow> bool" where
  "resolve (Value v) prev = v"
| "resolve (Updater f) prev = f prev"

text \<open>The optional call \<^verbatim>\<open>onChange?.(value)\<close>.\<close>

definition notify :: "(bool \<Rightarrow> 'c \<Rightarrow> 'c) option \<Rightarrow> bool \<Rightarrow> 'c state \<Rightarrow> 'c state" where
  "notify onChange v s =
     (case onChange of None \<Rightarrow> s | Some f \<Rightarrow> s\<lparr>caller := f v (caller s)\<rparr>)"

text \<open>
  Modelled from the spec: \<^verbatim>\<open>useControlledState\<close> of the shared utilities, which is not
  among the sources. "If an explicit value is supplied, it is authoritative and all writes
  are forwarded to the change callback without local mutation; otherwise a local default is
  used and writes mutate local state directly." The hook returns the current value and the
  setter; the local cell starts as \<^verbatim>\<open>defaultProp\<close> (see \<open>mount\<close>).
\<close>

definition useControlledState ::
  "bool option \<Rightarrow> (bool \<Rightarrow> 'c \<Rightarrow> 'c) option \<Rightarrow> 'c state
     \<Rightarrow> bool option \<times> (SetStateAction \<Rightarrow> 'c state \<Rightarrow> 'c state)" where
  "useControlledState prop onChange s =
     (case prop of
        Some v \<Rightarrow> (Some v, \<lambda>nextValue s'. notify onChange (resolve nextValue (Some v)) s')
      | None \<Rightarrow>
          (uncontrolledProp s,
           \<lambda>nextValue s'. s'\<lparr>uncontrolledProp := Some (resolve nextValue (uncontrolledProp s'))\<rparr>))"

text \<open>
  Modelled from the spec: the "local default" of \<^verbatim>\<open>useControlledState\<close>. When the menu is
  mounted the local cell holds \<^verbatim>\<open>defaultProp\<close>; the surface's flag starts as
  \<^verbatim>\<open>React.useState(false)\<close> (line 126), and the component has focused nothing yet.
\<close>

definition mount :: "'c DropdownMenuOwnProps \<Rightarrow> 'c \<Rightarrow> 'c state" where
  "mount props c =
     \<lparr>uncontrolledProp = defaultIsOpen props, skipCloseAutoFocus = False,
      activeElement = None, caller = c\<rparr>"

record 'c DropdownMenuContextValue =
  triggerRef :: "element option"
  id_ctx :: string
  isOpen :: bool
  setIsOpen :: "SetStateAction \<Rightarrow> 'c state \<Rightarrow> 'c state"

text \<open>
  One render of the root. \<^verbatim>\<open>useId()\<close> is not among the sources: the identifier it
  generated is the parameter \<open>generatedId\<close>. \<open>triggerEl\<close> is what the trigger ref currently
  holds. \<^verbatim>\<open>idProp || ...\<close> takes the generated identifier also for the empty string, and
  \<^verbatim>\<open>[isOpen = false, setIsOpen]\<close> reads an undefined value as closed.
\<close>

definition DropdownMenu ::
  "string \<Rightarrow> element option \<Rightarrow> 'c DropdownMenuOwnProps \<Rightarrow> 'c state
     \<Rightarrow> 'c DropdownMenuContextValue" where
  "DropdownMenu generatedId triggerEl props s =
     (case useControlledState (isOpenProp props) (onIsOpenChange props) s of
        (v, setter) \<Rightarrow>
          \<lparr>triggerRef = triggerEl,
           id_ctx = (case idProp props of
                       None \<Rightarrow> ''dropdown-menu-'' @ generatedId
                     | Some i \<Rightarrow> if i = [] then ''dropdown-menu-'' @ generatedId else i),
           isOpen = (case v of None \<Rightarrow> False | Some b \<Rightarrow> b),
           setIsOpen = setter\<rparr>)"

section \<open>DropdownMenuTrigger\<close>

text \<open>
  The props of the trigger: the fields the component names, and the remaining host-element
  props. \<^verbatim>\<open>const { as, onClick, ...triggerProps } = props\<close> leaves \<open>onMouseDown\<close>,
  \<open>onKeyDown\<close> and \<open>hostProps\<close> in \<^verbatim>\<open>triggerProps\<close>.
\<close>

record 'c TriggerProps =
  as_prop :: "string option"
  onClick :: "(mouse_event, 'c) caller_handler option"
  onMouseDown :: "(mouse_event, 'c) caller_handler option"
  onKeyDown :: "(keyboard_event, 'c) caller_handler option"
  hostProps :: props_obj

record 'c TriggerElement =
  elem_tag :: string
  elem_attrs :: props_obj
  elem_onClick :: "(mouse_event, 'c) caller_handler option"
  elem_onMouseDown :: "(mouse_event, 'c) handler"
  elem_onKeyDown :: "(keyboard_event, 'c) handler"

text \<open>
  The updater \<^verbatim>\<open>(prevOpen) => !prevOpen\<close>: negation on \<^verbatim>\<open>boolean | undefined\<close>, where
  \<^verbatim>\<open>!undefined\<close> is \<^verbatim>\<open>true\<close>.
\<close>

definition js_not :: "bool option \<Rightarrow> bool" where
  "js_not prevOpen = (prevOpen \<noteq> Some True)"

text \<open>The internal pointer-down logic (the second argument of the composition, lines 81-87).\<close>

definition trigger_mouse_down ::
  "'c DropdownMenuContextValue \<Rightarrow> (mouse_event, 'c) handler" where
  "trigger_mouse_down context event s =
     (if button event = 0 \<and> ctrlKey event = False
      then (event, setIsOpen context (Updater js_not) s)
      else (event, s))"

text \<open>The internal key-down logic (lines 88-93).\<close>

definition trigger_key_down ::
  "'c DropdownMenuContextValue \<Rightarrow> (keyboard_event, 'c) handler" where
  "trigger_key_down context event s =
     (if key event = '' '' \<or> key event = ''ArrowUp'' \<or> key event = ''ArrowDown''
      then (preventDefault event, setIsOpen context (Value True) s)
      else (event, s))"

text \<open>
  One render of the trigger. \<^verbatim>\<open>getPartDataAttrObj\<close> is not among the sources: the object
  it returns for the trigger is the parameter \<open>partDataAttrs\<close>. The props are merged in the
  order of the JSX: the part's data attribute, the component's own attributes, the caller's
  pass-through props, and last the two composed handlers. \<open>onClick\<close> was taken out of
  \<^verbatim>\<open>triggerProps\<close> by the destructuring and is not referred to again, so the element gets
  no click handler.
\<close>

definition DropdownMenuTrigger ::
  "props_obj \<Rightarrow> 'c TriggerProps \<Rightarrow> 'c DropdownMenuContextValue \<Rightarrow> 'c TriggerElement" where
  "DropdownMenuTrigger partDataAttrs props context =
     \<lparr>elem_tag = (case as_prop props of None \<Rightarrow> ''button'' | Some c \<Rightarrow> c),
      elem_attrs =
        partDataAttrs
        ++ [''type'' \<mapsto> StrV ''button'',
            ''aria-haspopup'' \<mapsto> StrV ''menu'',
            ''aria-expanded'' \<mapsto> (if isOpen context then BoolV True else Undefined),
            ''aria-controls'' \<mapsto> (if isOpen context then StrV (id_ctx context) else Undefined)]
        ++ hostProps props,
      elem_onClick = None,
      elem_onMouseDown = composeEventHandlers (onMouseDown props) (trigger_mouse_down context),
      elem_onKeyDown = composeEventHandlers (onKeyDown props) (trigger_key_down context)\<rparr>"

text \<open>What the DOM shows for a prop: nothing when it is missing or \<^verbatim>\<open>undefined\<close>.\<close>

definition attribute :: "props_obj \<Rightarrow> string \<Rightarrow> jsval option" where
  "attribute ps name = (case ps name of Some Undefined \<Rightarrow> None | r \<Rightarrow> r)"

section \<open>DropdownMenuPopper: the positioned surface\<close>

text \<open>
  The props of the surface: the fields the component names, the style object
  \<^verbatim>\<open>popperProps.style\<close>, and the remaining plain props. An \<open>anchorRef\<close> is a ref
  object when supplied.
\<close>

record 'c PopperProps =
  anchorRef :: "element option option"
  disableOutsidePointerEvents :: "bool option"
  onPointerDownOutside :: "(pointer_down_outside_event, 'c) caller_handler option"
  onInteractOutside :: "(pointer_down_outside_event, 'c) caller_handler option"
  disableOutsideScroll :: "bool option"
  shouldPortal :: "bool option"
  style :: "string \<rightharpoonup> string"
  popperProps :: props_obj

text \<open>The props handed to the menu primitive's root.\<close>

record 'c MenuRootProps =
  root_attrs :: props_obj
  root_style :: "string \<rightharpoonup> string"
  root_isOpen :: bool
  root_onIsOpenChange :: "SetStateAction \<Rightarrow> 'c state \<Rightarrow> 'c state"
  root_anchorRef :: "element option"
  root_trapFocus :: bool
  root_onCloseAutoFocus :: "(event, 'c) handler"
  root_disableOutsidePointerEvents :: bool
  root_onPointerDownOutside :: "(pointer_down_outside_event, 'c) handler"
  root_onInteractOutside :: "(pointer_down_outside_event, 'c) caller_handler option"
  root_disableOutsideScroll :: bool
  root_shouldPortal :: bool
  root_onDismiss :: "'c state \<Rightarrow> 'c state"

text \<open>
  The close-auto-focus handler (lines 142-148). \<open>skip\<close> is the value of the
  \<^verbatim>\<open>skipCloseAutoFocus\<close> cell at the render that created the handler; the handler reads
  it and writes no state cell.
\<close>

definition popper_close_auto_focus ::
  "bool \<Rightarrow> 'c DropdownMenuContextValue \<Rightarrow> (event, 'c) handler" where
  "popper_close_auto_focus skip context event s =
     (if skip then (preventDefault event, s)
      else (event,
            case triggerRef context of
              None \<Rightarrow> s
            | Some el \<Rightarrow> s\<lparr>activeElement := Some el\<rparr>))"

text \<open>
  The outside-pointer-down handler (lines 150-168). \<open>disable\<close> is
  \<^verbatim>\<open>disableOutsidePointerEvents\<close> after its default; \<open>interactOutside\<close> is the caller's
  \<^verbatim>\<open>onInteractOutside\<close>.
\<close>

definition popper_pointer_down_outside ::
  "bool \<Rightarrow> (pointer_down_outside_event, 'c) caller_handler option
     \<Rightarrow> 'c DropdownMenuContextValue \<Rightarrow> (pointer_down_outside_event, 'c) handler" where
  "popper_pointer_down_outside disable interactOutside context event s =
     (let wasTrigger = (target event = triggerRef context);
          s1 = s\<lparr>skipCloseAutoFocus := \<not> disable\<rparr>
      in case (if wasTrigger then (preventDefault event, s1)
               else call_handler interactOutside event s1) of
           (event', s2) \<Rightarrow>
             if defaultPrevented event' then (event', s2\<lparr>skipCloseAutoFocus := False\<rparr>)
             else (event', s2))"

text \<open>
  One render of the surface, in the state \<open>s\<close>. The object that \<^verbatim>\<open>getPartDataAttrObj\<close>
  returns for the surface is the parameter \<open>partDataAttrs\<close>. The caller's
  \<open>onPointerDownOutside\<close> is taken out of the props by the destructuring and is not
  referred to again.
\<close>

definition DropdownMenuPopper ::
  "props_obj \<Rightarrow> 'c PopperProps \<Rightarrow> 'c DropdownMenuContextValue \<Rightarrow> 'c state
     \<Rightarrow> 'c MenuRootProps" where
  "DropdownMenuPopper partDataAttrs props context s =
     (let disable = (case disableOutsidePointerEvents props of None \<Rightarrow> True | Some b \<Rightarrow> b)
      in \<lparr>root_attrs = popperProps props ++ partDataAttrs ++ [''id'' \<mapsto> StrV (id_ctx context)],
          root_style =
            style props
            ++ [''--radix-dropdown-menu-popper-transform-origin''
                  \<mapsto> ''var(--radix-popper-transform-origin)''],
          root_isOpen = isOpen context,
          root_onIsOpenChange = setIsOpen context,
          root_anchorRef = (case anchorRef props of None \<Rightarrow> triggerRef context | Some r \<Rightarrow> r),
          root_trapFocus = True,
          root_onCloseAutoFocus = popper_close_auto_focus (skipCloseAutoFocus s) context,
          root_disableOutsidePointerEvents = disable,
          root_onPointerDownOutside =
            popper_pointer_down_outside disable (onInteractOutside props) context,
          root_onInteractOutside = onInteractOutside props,
          root_disableOutsideScroll =
            (case disableOutsideScroll props of None \<Rightarrow> True | Some b \<Rightarrow> b),
          root_shouldPortal = (case shouldPortal props of None \<Rightarrow> True | Some b \<Rightarrow> b),
          root_onDismiss = setIsOpen context (Value False)\<rparr>)"

section \<open>Example callers and scenarios\<close>

text \<open>
  A caller whose state is a log of the callbacks it received, used to run the component on
  concrete inputs.
\<close>

datatype call =
  MouseDownCall | KeyDownCall | ClickCall | InteractOutsideCall | PointerDownOutsideCall
  | IsOpenChangeCall bool

definition logging :: "call \<Rightarrow> bool \<Rightarrow> ('e, call list) caller_handler" where
  "logging name prevent e log = (prevent, log @ [name])"

definition log_change :: "bool \<Rightarrow> call list \<Rightarrow> call list" where
  "log_change v log = log @ [IsOpenChangeCall v]"

definition trigger_node :: element where
  "trigger_node = 1"

definition outside_node :: element where
  "outside_node = 2"

definition part_attrs :: props_obj where
  "part_attrs = [''data-part'' \<mapsto> StrV '''']"

definition uncontrolled_root :: "call list DropdownMenuOwnProps" where
  "uncontrolled_root =
     \<lparr>idProp = Some ''menu-1'', isOpenProp = None, defaultIsOpen = None,
      onIsOpenChange = Some log_change\<rparr>"

definition controlled_root :: "bool \<Rightarrow> call list DropdownMenuOwnProps" where
  "controlled_root p =
     \<lparr>idProp = None, isOpenProp = Some p, defaultIsOpen = None,
      onIsOpenChange = Some log_change\<rparr>"

definition controlled_context :: "bool \<Rightarrow> call list state \<Rightarrow> call list DropdownMenuContextValue" where
  "controlled_context p s = DropdownMenu ''0'' (Some trigger_node) (controlled_root p) s"

definition menu_context :: "call list state \<Rightarrow> call list DropdownMenuContextValue" where
  "menu_context s = DropdownMenu ''0'' (Some trigger_node) uncontrolled_root s"

definition closed_menu :: "call list state" where
  "closed_menu = mount uncontrolled_root []"

definition open_menu :: "call list state" where
  "open_menu = closed_menu\<lparr>uncontrolledProp := Some True\<rparr>"

definition plain_trigger :: "call list TriggerProps" where
  "plain_trigger =
     \<lparr>as_prop = None, onClick = None, onMouseDown = None, onKeyDown = None,
      hostProps = Map.empty\<rparr>"

definition preventing_trigger :: "call list TriggerProps" where
  "preventing_trigger =
     plain_trigger\<lparr>onMouseDown := Some (logging MouseDownCall True),
                   onKeyDown := Some (logging KeyDownCall True)\<rparr>"

definition overriding_trigger :: "call list TriggerProps" where
  "overriding_trigger =
     plain_trigger\<lparr>hostProps := [''aria-haspopup'' \<mapsto> StrV ''listbox'',
                                 ''aria-controls'' \<mapsto> StrV ''elsewhere'']\<rparr>"

definition primary_press :: mouse_event where
  "primary_press =
     \<lparr>defaultPrevented = False, button = 0, ctrlKey = False, shiftKey = False,
      altKey = False, metaKey = False\<rparr>"

definition shift_press :: mouse_event where
  "shift_press = primary_press\<lparr>shiftKey := True\<rparr>"

definition secondary_press :: mouse_event where
  "secondary_press = primary_press\<lparr>button := 2\<rparr>"

definition ctrl_press :: mouse_event where
  "ctrl_press = primary_press\<lparr>ctrlKey := True\<rparr>"

definition space_key :: keyboard_event where
  "space_key = \<lparr>defaultPrevented = False, key = '' ''\<rparr>"

definition close_event :: event where
  "close_event = \<lparr>defaultPrevented = False\<rparr>"

definition outside_press :: pointer_down_outside_event where
  "outside_press = \<lparr>defaultPrevented = False, target = Some outside_node\<rparr>"

definition trigger_press :: pointer_down_outside_event where
  "trigger_press = \<lparr>defaultPrevented = False, target = Some trigger_node\<rparr>"

definition dismissable_popper :: "call list PopperProps" where
  "dismissable_popper =
     \<lparr>anchorRef = None, disableOutsidePointerEvents = Some False,
      onPointerDownOutside = Some (logging PointerDownOutsideCall False),
      onInteractOutside = Some (logging InteractOutsideCall False),
      disableOutsideScroll = None, shouldPortal = None, style = Map.empty,
      popperProps = Map.empty\<rparr>"

definition default_popper :: "call list PopperProps" where
  "default_popper = dismissable_popper\<lparr>disableOutsidePointerEvents := None\<rparr>"

definition preventing_popper :: "call list PopperProps" where
  "preventing_popper =
     dismissable_popper\<lparr>onInteractOutside := Some (logging InteractOutsideCall True)\<rparr>"

definition surface :: "call list state \<Rightarrow> call list MenuRootProps" where
  "surface s = DropdownMenuPopper part_attrs dismissable_popper (menu_context s) s"







section \<open>Facts about the renders\<close>

lemmas model_defs =
  DropdownMenu_def useControlledState_def notify_def DropdownMenuTrigger_def
  composeEventHandlers_def call_handler_def preventDefault_def trigger_mouse_down_def
  trigger_key_down_def js_not_def DropdownMenuPopper_def popper_pointer_down_outside_def
  popper_close_auto_focus_def attribute_def mount_def

lemmas scenario_defs =
  logging_def log_change_def trigger_node_def outside_node_def part_attrs_def
  uncontrolled_root_def controlled_root_def controlled_context_def menu_context_def
  closed_menu_def open_menu_def plain_trigger_def preventing_trigger_def
  overriding_trigger_def primary_press_def shift_press_def secondary_press_def
  ctrl_press_def space_key_def close_event_def outside_press_def
  trigger_press_def dismissable_popper_def default_popper_def preventing_popper_def
  surface_def

lemma isOpen_DropdownMenu:
  "isOpen (DropdownMenu gid tr rp s) =
     (case isOpenProp rp of None \<Rightarrow> uncontrolledProp s = Some True | Some p \<Rightarrow> p)"
  by (cases "isOpenProp rp"; cases "uncontrolledProp s")
     (simp_all add: DropdownMenu_def useControlledState_def)

lemma setIsOpen_DropdownMenu:
  "setIsOpen (DropdownMenu gid tr rp s) a s' =
     (case isOpenProp rp of
        None \<Rightarrow> s'\<lparr>uncontrolledProp := Some (resolve a (uncontrolledProp s'))\<rparr>
      | Some p \<Rightarrow> notify (onIsOpenChange rp) (resolve a (Some p)) s')"
  by (cases "isOpenProp rp") (simp_all add: DropdownMenu_def useControlledState_def)

lemma id_DropdownMenu:
  "id_ctx (DropdownMenu gid tr rp s) =
     (case idProp rp of
        None \<Rightarrow> ''dropdown-menu-'' @ gid
      | Some i \<Rightarrow> if i = [] then ''dropdown-menu-'' @ gid else i)"
  by (cases "isOpenProp rp") (simp_all add: DropdownMenu_def useControlledState_def)

lemma notify_cells:
  "uncontrolledProp (notify f v s) = uncontrolledProp s"
  "skipCloseAutoFocus (notify f v s) = skipCloseAutoFocus s"
  "activeElement (notify f v s) = activeElement s"
  by (cases f; simp add: notify_def)+

lemma call_handler_cells:
  "uncontrolledProp (snd (call_handler h e s)) = uncontrolledProp s"
  "skipCloseAutoFocus (snd (call_handler h e s)) = skipCloseAutoFocus s"
  "activeElement (snd (call_handler h e s)) = activeElement s"
  by (cases h; simp add: call_handler_def split: prod.splits)+

lemma call_handler_mouse:
  "button (fst (call_handler h e s)) = button e"
  "ctrlKey (fst (call_handler h e s)) = ctrlKey e"
  by (cases h; simp add: call_handler_def preventDefault_def split: prod.splits)+

lemma call_handler_key: "key (fst (call_handler h e s)) = key e"
  by (cases h; simp add: call_handler_def preventDefault_def split: prod.splits)

text \<open>
  The pointer-down handler on the rendered trigger: the caller's handler runs first, and
  the toggle is requested when the event is then not default-prevented, the button is the
  primary one and the Control key is up.
\<close>

lemma elem_onMouseDown_Trigger:
  "elem_onMouseDown (DropdownMenuTrigger pa tp ctx) e s =
     (if \<not> defaultPrevented (fst (call_handler (onMouseDown tp) e s))
         \<and> button e = 0 \<and> \<not> ctrlKey e
      then (fst (call_handler (onMouseDown tp) e s),
            setIsOpen ctx (Updater js_not) (snd (call_handler (onMouseDown tp) e s)))
      else call_handler (onMouseDown tp) e s)"
proof -
  obtain e1 s1 where r0: "call_handler (onMouseDown tp) e s = (e1, s1)"
    by (cases "call_handler (onMouseDown tp) e s")
  have "button e1 = button e" "ctrlKey e1 = ctrlKey e"
    using call_handler_mouse [of "onMouseDown tp" e s] r0 by simp_all
  then show ?thesis
    by (simp add: DropdownMenuTrigger_def composeEventHandlers_def trigger_mouse_down_def r0)
qed

lemma elem_onKeyDown_Trigger:
  "elem_onKeyDown (DropdownMenuTrigger pa tp ctx) e s =
     (if \<not> defaultPrevented (fst (call_handler (onKeyDown tp) e s))
         \<and> (key e = '' '' \<or> key e = ''ArrowUp'' \<or> key e = ''ArrowDown'')
      then (preventDefault (fst (call_handler (onKeyDown tp) e s)),
            setIsOpen ctx (Value True) (snd (call_handler (onKeyDown tp) e s)))
      else call_handler (onKeyDown tp) e s)"
proof -
  obtain e1 s1 where r0: "call_handler (onKeyDown tp) e s = (e1, s1)"
    by (cases "call_handler (onKeyDown tp) e s")
  have "key e1 = key e"
    using call_handler_key [of "onKeyDown tp" e s] r0 by simp
  then show ?thesis
    by (simp add: DropdownMenuTrigger_def composeEventHandlers_def trigger_key_down_def r0)
qed

text \<open>The outside-pointer-down handler on the rendered surface, by the target of the event.\<close>

lemma root_onPointerDownOutside_Popper:
  "root_onPointerDownOutside (DropdownMenuPopper pa props ctx s0) =
     popper_pointer_down_outside
       (case disableOutsidePointerEvents props of None \<Rightarrow> True | Some b \<Rightarrow> b)
       (onInteractOutside props) ctx"
  by (simp add: DropdownMenuPopper_def Let_def)

lemma pointer_down_outside_on_trigger:
  "target event = triggerRef ctx \<Longrightarrow>
   popper_pointer_down_outside disable h ctx event s =
     (preventDefault event, s\<lparr>skipCloseAutoFocus := False\<rparr>)"
  by (simp add: popper_pointer_down_outside_def preventDefault_def Let_def)

lemma pointer_down_outside_elsewhere:
  "target event \<noteq> triggerRef ctx \<Longrightarrow>
   popper_pointer_down_outside disable h ctx event s =
     (fst (call_handler h event s),
      snd (call_handler h event s)
        \<lparr>skipCloseAutoFocus := \<not> disable \<and> \<not> defaultPrevented (fst (call_handler h event s))\<rparr>)"
  by (cases h)
     (auto simp: popper_pointer_down_outside_def call_handler_def preventDefault_def Let_def
        split: prod.splits)

section \<open>The trigger's pointer-down (C1)\<close>

text \<open>
  C1, as amended. On a pointer-down on the trigger the caller's own \<open>onMouseDown\<close> handler
  runs first. If the event is then not default-prevented, the button is the primary one and
  the Control key is not held, the trigger requests a toggle through the context's setter,
  which flips the open state of an uncontrolled root (a controlled root keeps showing its
  \<open>isOpen\<close> prop). With a non-primary button, or with the Control key held, the handler
  does nothing beyond the caller's handler: the open state is unchanged. The Shift, Alt and
  Meta keys are not looked at.
\<close>

theorem trigger_pointer_down:
  "let ctx = DropdownMenu gid tr rp s;
       r0 = call_handler (onMouseDown tp) e s;
       r = elem_onMouseDown (DropdownMenuTrigger pa tp ctx) e s
   in if button e = 0 \<and> \<not> ctrlKey e \<and> \<not> defaultPrevented (fst r0)
      then snd r = setIsOpen ctx (Updater js_not) (snd r0)
         \<and> isOpen (DropdownMenu gid tr rp (snd r)) =
             (case isOpenProp rp of None \<Rightarrow> \<not> isOpen ctx | Some p \<Rightarrow> p)
      else r = r0
         \<and> uncontrolledProp (snd r) = uncontrolledProp s
         \<and> isOpen (DropdownMenu gid tr rp (snd r)) = isOpen ctx"
  by (cases "isOpenProp rp")
     (simp_all add: Let_def elem_onMouseDown_Trigger isOpen_DropdownMenu setIsOpen_DropdownMenu
        call_handler_cells notify_cells js_not_def)

text \<open>
  C1 as amended, on the example menu: a plain primary-button press opens the closed menu
  and closes the open one; a press of the secondary button, and a primary-button press
  with the Control key held, leave the closed menu closed.
\<close>

theorem trigger_pointer_down_witness:
  "\<not> isOpen (menu_context closed_menu)
   \<and> isOpen (menu_context open_menu)
   \<and> isOpen (menu_context (snd (elem_onMouseDown
        (DropdownMenuTrigger part_attrs plain_trigger (menu_context closed_menu))
        primary_press closed_menu)))
   \<and> \<not> isOpen (menu_context (snd (elem_onMouseDown
        (DropdownMenuTrigger part_attrs plain_trigger (menu_context open_menu))
        primary_press open_menu)))
   \<and> \<not> isOpen (menu_context (snd (elem_onMouseDown
        (DropdownMenuTrigger part_attrs plain_trigger (menu_context closed_menu))
        secondary_press closed_menu)))
   \<and> \<not> isOpen (menu_context (snd (elem_onMouseDown
        (DropdownMenuTrigger part_attrs plain_trigger (menu_context closed_menu))
        ctrl_press closed_menu)))"
  using
    trigger_pointer_down [where gid = "''0''" and tr = "Some trigger_node"
      and rp = uncontrolled_root and s = closed_menu and tp = plain_trigger
      and e = primary_press and pa = part_attrs]
    trigger_pointer_down [where gid = "''0''" and tr = "Some trigger_node"
      and rp = uncontrolled_root and s = open_menu and tp = plain_trigger
      and e = primary_press and pa = part_attrs]
    trigger_pointer_down [where gid = "''0''" and tr = "Some trigger_node"
      and rp = uncontrolled_root and s = closed_menu and tp = plain_trigger
      and e = secondary_press and pa = part_attrs]
    trigger_pointer_down [where gid = "''0''" and tr = "Some trigger_node"
      and rp = uncontrolled_root and s = closed_menu and tp = plain_trigger
      and e = ctrl_press and pa = part_attrs]
  by (simp add: Let_def model_defs scenario_defs)

text \<open>
  C1 fails as stated. A primary-button press with the Shift key held (and Control up) opens
  a closed menu, although a modifier key is held; and a plain primary-button press does not
  toggle when the caller's \<open>onMouseDown\<close> handler has default-prevented the event.
\<close>

theorem shift_press_toggles:
  "button shift_press = 0
   \<and> shiftKey shift_press
   \<and> \<not> isOpen (menu_context closed_menu)
   \<and> isOpen (menu_context (snd (elem_onMouseDown
        (DropdownMenuTrigger part_attrs plain_trigger (menu_context closed_menu))
        shift_press closed_menu)))
   \<and> \<not> isOpen (menu_context (snd (elem_onMouseDown
        (DropdownMenuTrigger part_attrs preventing_trigger (menu_context closed_menu))
        primary_press closed_menu)))"
  by (simp add: model_defs scenario_defs)

section \<open>Focus restoration on close (C2)\<close>




section \<open>Controlled open state (C3)\<close>

text \<open>
  C3. When the root is controlled (\<open>isOpen\<close> supplied as \<open>p\<close>), any write \<open>a\<close> through the
  setter leaves the internal state cell as it was, and the caller's state afterwards is the
  result of one call of \<open>onIsOpenChange\<close> with the proposed value: the value \<open>v\<close> itself
  for a write of \<open>v\<close>, and \<open>g (Some p)\<close> for an updater \<open>g\<close>. So the trigger's toggle
  proposes the negation of \<open>p\<close>, and the surface's dismissal proposes \<open>False\<close>. The
  displayed open state is still \<open>p\<close> after the write, and is \<open>q\<close> once the caller supplies
  \<open>q\<close> as the \<open>isOpen\<close> prop.
\<close>

theorem controlled_write_forwarded:
  assumes "isOpenProp props = Some p"
  shows "let ctx = DropdownMenu gid tr props s; s' = setIsOpen ctx a s in
           uncontrolledProp s' = uncontrolledProp s
         \<and> caller s' =
             (case onIsOpenChange props of
                None \<Rightarrow> caller s
              | Some f \<Rightarrow> f (case a of Value v \<Rightarrow> v | Updater g \<Rightarrow> g (Some p)) (caller s))
         \<and> caller (setIsOpen ctx (Updater js_not) s) =
             (case onIsOpenChange props of None \<Rightarrow> caller s | Some f \<Rightarrow> f (\<not> p) (caller s))
         \<and> caller (root_onDismiss (DropdownMenuPopper pa pprops ctx s0) s) =
             (case onIsOpenChange props of None \<Rightarrow> caller s | Some f \<Rightarrow> f False (caller s))
         \<and> isOpen (DropdownMenu gid tr props s') = p
         \<and> isOpen (DropdownMenu gid tr (props\<lparr>isOpenProp := Some q\<rparr>) s') = q"
proof -
  have dismiss: "root_onDismiss (DropdownMenuPopper pa pprops ctx' s0) = setIsOpen ctx' (Value False)"
    for ctx' :: "'a DropdownMenuContextValue"
    by (simp add: DropdownMenuPopper_def Let_def)
  show ?thesis
    using assms
    by (cases a; cases "onIsOpenChange props")
       (simp_all add: Let_def dismiss isOpen_DropdownMenu setIsOpen_DropdownMenu notify_def
          js_not_def)
qed

text \<open>
  C3 on controlled roots whose caller logs the notifications. On the closed root a toggle is
  notified once, with \<open>True\<close>, a close write once, with \<open>False\<close>, and the menu still shows
  closed; it shows open when the caller passes \<open>True\<close> back. On the open root a toggle is
  notified once, with \<open>False\<close>, an open write once, with \<open>True\<close>, and the menu still shows
  open.
\<close>

theorem controlled_write_forwarded_witness:
  "isOpenProp (controlled_root False) = Some False
   \<and> isOpenProp (controlled_root True) = Some True
   \<and> uncontrolledProp (setIsOpen (controlled_context False closed_menu) (Updater js_not) closed_menu)
       = uncontrolledProp closed_menu
   \<and> caller (setIsOpen (controlled_context False closed_menu) (Updater js_not) closed_menu)
       = [IsOpenChangeCall True]
   \<and> caller (setIsOpen (controlled_context False closed_menu) (Value False) closed_menu)
       = [IsOpenChangeCall False]
   \<and> \<not> isOpen (controlled_context False
               (setIsOpen (controlled_context False closed_menu) (Updater js_not) closed_menu))
   \<and> isOpen (controlled_context True
             (setIsOpen (controlled_context False closed_menu) (Updater js_not) closed_menu))
   \<and> caller (setIsOpen (controlled_context True closed_menu) (Updater js_not) closed_menu)
       = [IsOpenChangeCall False]
   \<and> caller (setIsOpen (controlled_context True closed_menu) (Value True) closed_menu)
       = [IsOpenChangeCall True]
   \<and> isOpen (controlled_context True
             (setIsOpen (controlled_context True closed_menu) (Updater js_not) closed_menu))"
proof -
  have h: "isOpenProp (controlled_root False) = Some False"
    by (simp add: controlled_root_def)
  have h': "isOpenProp (controlled_root True) = Some True"
    by (simp add: controlled_root_def)
  show ?thesis
    using h h'
      controlled_write_forwarded [OF h, where gid = "''0''" and tr = "Some trigger_node"
        and s = closed_menu and a = "Updater js_not" and q = True]
      controlled_write_forwarded [OF h, where gid = "''0''" and tr = "Some trigger_node"
        and s = closed_menu and a = "Value False" and q = True]
      controlled_write_forwarded [OF h', where gid = "''0''" and tr = "Some trigger_node"
        and s = closed_menu and a = "Updater js_not" and q = True]
      controlled_write_forwarded [OF h', where gid = "''0''" and tr = "Some trigger_node"
        and s = closed_menu and a = "Value True" and q = True]
    by (simp add: Let_def model_defs scenario_defs)
qed

section \<open>The caller's click handler (C4)\<close>

text \<open>
  C4 does not hold of the code. Whatever \<open>onClick\<close> handler the caller passes to the
  trigger, the rendered element has no click handler, and the render is the same as with
  no \<open>onClick\<close> at all: the handler is neither forwarded nor ever called.
\<close>

theorem trigger_onClick_dropped:
  "elem_onClick (DropdownMenuTrigger pa (props\<lparr>onClick := Some h\<rparr>) ctx) = None
   \<and> DropdownMenuTrigger pa (props\<lparr>onClick := Some h\<rparr>) ctx
       = DropdownMenuTrigger pa (props\<lparr>onClick := None\<rparr>) ctx"
  by (simp add: DropdownMenuTrigger_def)

section \<open>Outside pointer-down on the surface (C5, C6, C7)\<close>

text \<open>
  C5. For an outside pointer-down whose target is not the trigger, the internal handler
  calls the caller's \<open>onInteractOutside\<close> (when there is one) once, with the event; the same
  handler is also handed to the primitive as its \<open>onInteractOutside\<close> prop, so running both
  props of the primitive on one event calls it twice; and the render does not depend on the
  caller's \<open>onPointerDownOutside\<close>, which is neither called nor forwarded.
\<close>

theorem interact_outside_called_and_forwarded:
  assumes "target event \<noteq> triggerRef ctx"
  shows "let el = DropdownMenuPopper pa props ctx s0;
             r1 = root_onPointerDownOutside el event s;
             r2 = call_handler (root_onInteractOutside el) (fst r1) (snd r1)
         in caller (snd r1) =
              (case onInteractOutside props of
                 None \<Rightarrow> caller s
               | Some h \<Rightarrow> snd (h event (caller s)))
          \<and> root_onInteractOutside el = onInteractOutside props
          \<and> caller (snd r2) =
              (case onInteractOutside props of
                 None \<Rightarrow> caller s
               | Some h \<Rightarrow> snd (h (fst r1) (snd (h event (caller s)))))
          \<and> DropdownMenuPopper pa (props\<lparr>onPointerDownOutside := other\<rparr>) ctx s0 = el"
proof -
  have fwd: "root_onInteractOutside (DropdownMenuPopper pa props ctx s0) = onInteractOutside props"
    by (simp add: DropdownMenuPopper_def Let_def)
  have indep: "DropdownMenuPopper pa (props\<lparr>onPointerDownOutside := other\<rparr>) ctx s0
                 = DropdownMenuPopper pa props ctx s0"
    by (simp add: DropdownMenuPopper_def Let_def)
  show ?thesis
    using assms
    by (cases "onInteractOutside props")
       (simp_all add: Let_def fwd indep root_onPointerDownOutside_Popper
          pointer_down_outside_elsewhere call_handler_def split: prod.splits)
qed

text \<open>
  C5 on the example surface, whose caller passes both an \<open>onInteractOutside\<close> and an
  \<open>onPointerDownOutside\<close> handler: the internal handler logs one outside interaction, the
  primitive's two props together log two, and \<open>onPointerDownOutside\<close> is never logged.
\<close>

theorem interact_outside_called_and_forwarded_witness:
  "target outside_press \<noteq> triggerRef (menu_context open_menu)
   \<and> caller (snd (root_onPointerDownOutside (surface open_menu) outside_press open_menu))
       = [InteractOutsideCall]
   \<and> root_onInteractOutside (surface open_menu) = onInteractOutside dismissable_popper
   \<and> caller (snd (call_handler (root_onInteractOutside (surface open_menu))
                    (fst (root_onPointerDownOutside (surface open_menu) outside_press open_menu))
                    (snd (root_onPointerDownOutside (surface open_menu) outside_press open_menu))))
       = [InteractOutsideCall, InteractOutsideCall]
   \<and> DropdownMenuPopper part_attrs (dismissable_popper\<lparr>onPointerDownOutside := None\<rparr>)
        (menu_context open_menu) open_menu = surface open_menu"
proof -
  have h: "target outside_press \<noteq> triggerRef (menu_context open_menu)"
    by (simp add: outside_press_def menu_context_def DropdownMenu_def useControlledState_def
        uncontrolled_root_def outside_node_def trigger_node_def)
  have log: "caller open_menu = []"
    by (simp add: open_menu_def closed_menu_def mount_def)
  show ?thesis
    using h log
      interact_outside_called_and_forwarded [OF h, where pa = part_attrs
        and props = dismissable_popper and ?s0.0 = open_menu and s = open_menu and other = None]
    by (simp add: Let_def model_defs scenario_defs)
qed




text \<open>
  C7. After the outside-pointer-down handler the skip flag is set exactly when
  \<open>disableOutsidePointerEvents\<close> was configured as false and the event did not end up
  default-prevented; whenever the event ends up default-prevented the flag is clear. The
  event ends up default-prevented when its target is the trigger, when it already was, or
  when the caller's handler prevented it.
\<close>

theorem skip_flag_after_pointer_down_outside:
  "let r = root_onPointerDownOutside (DropdownMenuPopper pa props ctx s0) event s
   in skipCloseAutoFocus (snd r) =
        (disableOutsidePointerEvents props = Some False \<and> \<not> defaultPrevented (fst r))
    \<and> defaultPrevented (fst r) =
        (target event = triggerRef ctx \<or> defaultPrevented event
         \<or> (case onInteractOutside props of
               None \<Rightarrow> False
             | Some h \<Rightarrow> fst (h event (caller s))))"
proof (cases "target event = triggerRef ctx")
  case True
  then show ?thesis
    by (simp add: Let_def root_onPointerDownOutside_Popper pointer_down_outside_on_trigger
        preventDefault_def)
next
  case False
  then show ?thesis
    by (cases "onInteractOutside props"; cases "disableOutsidePointerEvents props")
       (auto simp: Let_def root_onPointerDownOutside_Popper pointer_down_outside_elsewhere
          call_handler_def preventDefault_def split: prod.splits)
qed

text \<open>
  C7 on the example surface. With \<open>disableOutsidePointerEvents\<close> false, a pointer-down
  outside sets the flag; it leaves the flag clear when the target is the trigger, when the
  caller's handler default-prevents the event, and when \<open>disableOutsidePointerEvents\<close> is
  left at its default.
\<close>

theorem skip_flag_after_pointer_down_outside_witness:
  "skipCloseAutoFocus (snd (root_onPointerDownOutside (surface open_menu) outside_press open_menu))
   \<and> \<not> skipCloseAutoFocus
         (snd (root_onPointerDownOutside (surface open_menu) trigger_press open_menu))
   \<and> \<not> skipCloseAutoFocus
         (snd (root_onPointerDownOutside
                 (DropdownMenuPopper part_attrs preventing_popper (menu_context open_menu) open_menu)
                 outside_press open_menu))
   \<and> \<not> skipCloseAutoFocus
         (snd (root_onPointerDownOutside
                 (DropdownMenuPopper part_attrs default_popper (menu_context open_menu) open_menu)
                 outside_press open_menu))"
  using
    skip_flag_after_pointer_down_outside [where pa = part_attrs and props = dismissable_popper
      and ctx = "menu_context open_menu" and ?s0.0 = open_menu and event = outside_press
      and s = open_menu]
    skip_flag_after_pointer_down_outside [where pa = part_attrs and props = dismissable_popper
      and ctx = "menu_context open_menu" and ?s0.0 = open_menu and event = trigger_press
      and s = open_menu]
    skip_flag_after_pointer_down_outside [where pa = part_attrs and props = preventing_popper
      and ctx = "menu_context open_menu" and ?s0.0 = open_menu and event = outside_press
      and s = open_menu]
    skip_flag_after_pointer_down_outside [where pa = part_attrs and props = default_popper
      and ctx = "menu_context open_menu" and ?s0.0 = open_menu and event = outside_press
      and s = open_menu]
  by (simp add: Let_def model_defs scenario_defs)

section \<open>The trigger's key-down (C8)\<close>

text \<open>
  C8, as amended. On a key-down of Space, ArrowUp or ArrowDown on the trigger, the caller's
  own \<open>onKeyDown\<close> handler runs first; if the event is then not default-prevented, the
  trigger suppresses the default action and writes \<open>true\<close> to the open state (it does not
  toggle): an uncontrolled root is open afterwards, whether it was closed or open before,
  and a controlled root keeps showing its \<open>isOpen\<close> prop.
\<close>

theorem trigger_key_down_opens:
  assumes "key e = '' '' \<or> key e = ''ArrowUp'' \<or> key e = ''ArrowDown''"
      and "\<not> defaultPrevented (fst (call_handler (onKeyDown tp) e s))"
  shows "let ctx = DropdownMenu gid tr rp s;
             r = elem_onKeyDown (DropdownMenuTrigger pa tp ctx) e s
         in defaultPrevented (fst r)
          \<and> snd r = setIsOpen ctx (Value True) (snd (call_handler (onKeyDown tp) e s))
          \<and> isOpen (DropdownMenu gid tr rp (snd r)) =
              (case isOpenProp rp of None \<Rightarrow> True | Some p \<Rightarrow> p)"
  using assms
  by (cases "isOpenProp rp")
     (simp_all add: Let_def elem_onKeyDown_Trigger isOpen_DropdownMenu setIsOpen_DropdownMenu
        call_handler_cells notify_cells preventDefault_def)

text \<open>
  C8 as amended, on the Space key: pressed on the trigger of the closed menu it opens the
  menu, and pressed on the trigger of the open menu it leaves the menu open; the default
  action is suppressed both times.
\<close>

theorem trigger_key_down_opens_witness:
  "(key space_key = '' '' \<or> key space_key = ''ArrowUp'' \<or> key space_key = ''ArrowDown'')
   \<and> \<not> defaultPrevented (fst (call_handler (onKeyDown plain_trigger) space_key closed_menu))
   \<and> \<not> isOpen (menu_context closed_menu)
   \<and> defaultPrevented (fst (elem_onKeyDown
        (DropdownMenuTrigger part_attrs plain_trigger (menu_context closed_menu))
        space_key closed_menu))
   \<and> isOpen (menu_context (snd (elem_onKeyDown
        (DropdownMenuTrigger part_attrs plain_trigger (menu_context closed_menu))
        space_key closed_menu)))
   \<and> isOpen (menu_context (snd (elem_onKeyDown
        (DropdownMenuTrigger part_attrs plain_trigger (menu_context open_menu))
        space_key open_menu)))"
proof -
  have k: "key space_key = '' '' \<or> key space_key = ''ArrowUp'' \<or> key space_key = ''ArrowDown''"
    by (simp add: space_key_def)
  have c: "\<not> defaultPrevented (fst (call_handler (onKeyDown plain_trigger) space_key closed_menu))"
    by (simp add: call_handler_def plain_trigger_def space_key_def)
  have o: "\<not> defaultPrevented (fst (call_handler (onKeyDown plain_trigger) space_key open_menu))"
    by (simp add: call_handler_def plain_trigger_def space_key_def)
  have closed: "\<not> isOpen (menu_context closed_menu)"
    by (simp add: menu_context_def isOpen_DropdownMenu uncontrolled_root_def closed_menu_def
        mount_def)
  show ?thesis
    using k c closed
      trigger_key_down_opens [OF k c, where gid = "''0''" and tr = "Some trigger_node"
        and rp = uncontrolled_root and pa = part_attrs]
      trigger_key_down_opens [OF k o, where gid = "''0''" and tr = "Some trigger_node"
        and rp = uncontrolled_root and pa = part_attrs]
    by (simp add: Let_def model_defs scenario_defs)
qed

text \<open>
  C8 fails as stated. The caller's \<open>onKeyDown\<close> handler default-prevents the event, and a
  Space key-down on the trigger of the closed menu leaves the menu closed.
\<close>

theorem prevented_key_down_stays_closed:
  "key space_key = '' ''
   \<and> \<not> isOpen (menu_context closed_menu)
   \<and> \<not> isOpen (menu_context (snd (elem_onKeyDown
        (DropdownMenuTrigger part_attrs preventing_trigger (menu_context closed_menu))
        space_key closed_menu)))"
  by (simp add: model_defs scenario_defs)

section \<open>The trigger's ARIA attributes (C9)\<close>

text \<open>
  C9, as amended. Each of \<open>aria-haspopup\<close>, \<open>aria-expanded\<close> and \<open>aria-controls\<close> is
  settled on its own. When the caller's pass-through props do not carry the attribute, the
  trigger renders \<open>aria-haspopup="menu"\<close> always, \<open>aria-expanded\<close> with the value true
  exactly when the menu is open and not at all otherwise, and \<open>aria-controls\<close> with the
  shared identifier exactly when the menu is open and not at all otherwise. When the
  pass-through props carry the attribute, what they give for it is rendered in its place
  (they are spread after the component's attributes), and the other two attributes are as
  before.
\<close>

theorem trigger_aria_attributes:
  "let attrs = elem_attrs (DropdownMenuTrigger pa props ctx) in
     attribute attrs ''aria-haspopup'' =
       (if hostProps props ''aria-haspopup'' = None then Some (StrV ''menu'')
        else attribute (hostProps props) ''aria-haspopup'')
   \<and> attribute attrs ''aria-expanded'' =
       (if hostProps props ''aria-expanded'' = None
        then (if isOpen ctx then Some (BoolV True) else None)
        else attribute (hostProps props) ''aria-expanded'')
   \<and> attribute attrs ''aria-controls'' =
       (if hostProps props ''aria-controls'' = None
        then (if isOpen ctx then Some (StrV (id_ctx ctx)) else None)
        else attribute (hostProps props) ''aria-controls'')"
  by (auto simp add: DropdownMenuTrigger_def attribute_def map_add_def Let_def
      split: option.splits)

text \<open>
  C9 as amended. A trigger without pass-through props renders the three attributes when
  open and \<open>aria-haspopup\<close> alone when closed. A trigger whose caller passes
  \<open>aria-haspopup\<close> and \<open>aria-controls\<close> renders the caller's values for these two, and
  \<open>aria-expanded\<close> as before.
\<close>

theorem trigger_aria_attributes_witness:
  "attribute (elem_attrs (DropdownMenuTrigger part_attrs plain_trigger (menu_context open_menu)))
        ''aria-haspopup'' = Some (StrV ''menu'')
   \<and> attribute (elem_attrs (DropdownMenuTrigger part_attrs plain_trigger (menu_context open_menu)))
        ''aria-expanded'' = Some (BoolV True)
   \<and> attribute (elem_attrs (DropdownMenuTrigger part_attrs plain_trigger (menu_context open_menu)))
        ''aria-controls'' = Some (StrV ''menu-1'')
   \<and> attribute (elem_attrs (DropdownMenuTrigger part_attrs plain_trigger (menu_context closed_menu)))
        ''aria-haspopup'' = Some (StrV ''menu'')
   \<and> attribute (elem_attrs (DropdownMenuTrigger part_attrs plain_trigger (menu_context closed_menu)))
        ''aria-expanded'' = None
   \<and> attribute (elem_attrs (DropdownMenuTrigger part_attrs plain_trigger (menu_context closed_menu)))
        ''aria-controls'' = None
   \<and> attribute (elem_attrs (DropdownMenuTrigger part_attrs overriding_trigger (menu_context open_menu)))
        ''aria-haspopup'' = Some (StrV ''listbox'')
   \<and> attribute (elem_attrs (DropdownMenuTrigger part_attrs overriding_trigger (menu_context open_menu)))
        ''aria-expanded'' = Some (BoolV True)
   \<and> attribute (elem_attrs (DropdownMenuTrigger part_attrs overriding_trigger (menu_context open_menu)))
        ''aria-controls'' = Some (StrV ''elsewhere'')"
  using
    trigger_aria_attributes [where pa = part_attrs and props = plain_trigger
      and ctx = "menu_context open_menu"]
    trigger_aria_attributes [where pa = part_attrs and props = plain_trigger
      and ctx = "menu_context closed_menu"]
    trigger_aria_attributes [where pa = part_attrs and props = overriding_trigger
      and ctx = "menu_context open_menu"]
  by (simp add: Let_def model_defs scenario_defs)

text \<open>
  C9 fails as stated. A caller passes \<open>aria-haspopup="listbox"\<close> among the trigger's
  pass-through props: the trigger renders that value, not \<open>"menu"\<close>.
\<close>

theorem aria_haspopup_overridden:
  "attribute (elem_attrs (DropdownMenuTrigger part_attrs overriding_trigger (menu_context open_menu)))
      ''aria-haspopup'' = Some (StrV ''listbox'')
   \<and> attribute (elem_attrs (DropdownMenuTrigger part_attrs overriding_trigger (menu_context open_menu)))
      ''aria-haspopup'' \<noteq> Some (StrV ''menu'')"
  by (simp add: model_defs scenario_defs)

section \<open>The identifier shared by trigger and surface (C10)\<close>

text \<open>
  C10, as amended. For a non-empty string \<open>i\<close> supplied as the root's \<open>id\<close>, the surface's
  \<open>id\<close> attribute is \<open>i\<close>, whether the menu is open or closed and whatever props the caller
  passes to the surface; and while the menu is open the trigger's \<open>aria-controls\<close> is \<open>i\<close>
  too, when the caller's pass-through props of the trigger carry no \<open>aria-controls\<close> of
  their own.
\<close>

theorem id_round_trip:
  assumes "idProp props = Some i" and "i \<noteq> []"
  shows "let ctx = DropdownMenu gid tr props s in
           attribute (root_attrs (DropdownMenuPopper pa' pprops ctx s0)) ''id'' = Some (StrV i)
         \<and> (isOpen ctx \<and> hostProps tprops ''aria-controls'' = None \<longrightarrow>
              attribute (elem_attrs (DropdownMenuTrigger pa tprops ctx)) ''aria-controls''
                = Some (StrV i))"
  using assms
  by (simp add: Let_def DropdownMenuTrigger_def DropdownMenuPopper_def attribute_def
      map_add_def id_DropdownMenu)

text \<open>
  C10 as amended, with the root's \<open>id\<close> set to \<open>menu-1\<close>: the surface's \<open>id\<close> is \<open>menu-1\<close>
  on the open menu and on the closed one, and on the open menu a trigger without
  pass-through props renders \<open>aria-controls="menu-1"\<close>.
\<close>

theorem id_round_trip_witness:
  "idProp uncontrolled_root = Some ''menu-1''
   \<and> ''menu-1'' \<noteq> []
   \<and> isOpen (menu_context open_menu)
   \<and> \<not> isOpen (menu_context closed_menu)
   \<and> hostProps plain_trigger ''aria-controls'' = None
   \<and> attribute (root_attrs (surface open_menu)) ''id'' = Some (StrV ''menu-1'')
   \<and> attribute (root_attrs (surface closed_menu)) ''id'' = Some (StrV ''menu-1'')
   \<and> attribute (elem_attrs (DropdownMenuTrigger part_attrs plain_trigger (menu_context open_menu)))
        ''aria-controls'' = Some (StrV ''menu-1'')"
proof -
  have h1: "idProp uncontrolled_root = Some ''menu-1''"
    by (simp add: uncontrolled_root_def)
  have h2: "''menu-1'' \<noteq> []"
    by simp
  have h3: "hostProps plain_trigger ''aria-controls'' = None"
    by (simp add: plain_trigger_def)
  have h4: "isOpen (menu_context open_menu)" "\<not> isOpen (menu_context closed_menu)"
    by (simp_all add: menu_context_def isOpen_DropdownMenu uncontrolled_root_def open_menu_def
        closed_menu_def mount_def)
  show ?thesis
    using h1 h3 h4
      id_round_trip [OF h1 h2, where gid = "''0''" and tr = "Some trigger_node"
        and s = open_menu and ?s0.0 = open_menu and pa = part_attrs and pa' = part_attrs
        and pprops = dismissable_popper and tprops = plain_trigger]
      id_round_trip [OF h1 h2, where gid = "''0''" and tr = "Some trigger_node"
        and s = closed_menu and ?s0.0 = closed_menu and pa = part_attrs and pa' = part_attrs
        and pprops = dismissable_popper and tprops = plain_trigger]
    by (simp add: Let_def model_defs scenario_defs)
qed

text \<open>
  C10 fails as stated. The root's \<open>id\<close> is \<open>menu-1\<close> and the menu is open; a caller passes
  an \<open>aria-controls\<close> of its own among the trigger's pass-through props, and the trigger
  renders that one, while the surface's \<open>id\<close> is \<open>menu-1\<close>.
\<close>

theorem aria_controls_overridden:
  "idProp uncontrolled_root = Some ''menu-1''
   \<and> isOpen (menu_context open_menu)
   \<and> attribute (elem_attrs (DropdownMenuTrigger part_attrs overriding_trigger (menu_context open_menu)))
        ''aria-controls'' = Some (StrV ''elsewhere'')
   \<and> attribute (root_attrs (surface open_menu)) ''id'' = Some (StrV ''menu-1'')"
  by (simp add: model_defs scenario_defs)


end
